theory Spec2Isabelle
  imports Complex_Main
begin

section \<open>JavaScript numbers\<close>

text \<open>
  A JavaScript \<open>number\<close> is a finite value, one of the two infinities, or NaN.
  Finite values are held as exact rationals: rounding of the binary representation is
  not part of this model, and the two signed zeros are one value (no comparison used by
  the program tells them apart). The special values are kept, because the program's
  guards (\<open>amount <= 0\<close>, \<open>amount > user.balance\<close>, \<open>isNaN\<close>) treat them differently
  from finite numbers.
\<close>

datatype jsnum = Fin rat | PInf | NInf | NaN

text \<open>\<open>a < b\<close>: false as soon as one side is NaN.\<close>

fun js_less :: "jsnum \<Rightarrow> jsnum \<Rightarrow> bool" where
  "js_less (Fin a) (Fin b) = (a < b)"
| "js_less (Fin a) PInf = True"
| "js_less (Fin a) NInf = False"
| "js_less (Fin a) NaN = False"
| "js_less PInf b = False"
| "js_less NInf (Fin b) = True"
| "js_less NInf PInf = True"
| "js_less NInf NInf = False"
| "js_less NInf NaN = False"
| "js_less NaN b = False"

text \<open>\<open>a === b\<close> on numbers: NaN is not equal to itself.\<close>

fun js_eq :: "jsnum \<Rightarrow> jsnum \<Rightarrow> bool" where
  "js_eq NaN b = False"
| "js_eq a NaN = False"
| "js_eq a b = (a = b)"

text \<open>\<open>a <= b\<close>, and \<open>a > b\<close>, \<open>a >= b\<close> with the operands swapped.\<close>

definition js_le :: "jsnum \<Rightarrow> jsnum \<Rightarrow> bool" where
  "js_le a b = (js_less a b \<or> js_eq a b)"

definition js_gt :: "jsnum \<Rightarrow> jsnum \<Rightarrow> bool" where
  "js_gt a b = js_less b a"


fun js_neg :: "jsnum \<Rightarrow> jsnum" where
  "js_neg (Fin a) = Fin (- a)"
| "js_neg PInf = NInf"
| "js_neg NInf = PInf"
| "js_neg NaN = NaN"

text \<open>\<open>a + b\<close>: opposite infinities give NaN.\<close>

fun js_add :: "jsnum \<Rightarrow> jsnum \<Rightarrow> jsnum" where
  "js_add (Fin a) (Fin b) = Fin (a + b)"
| "js_add NaN b = NaN"
| "js_add a NaN = NaN"
| "js_add PInf NInf = NaN"
| "js_add NInf PInf = NaN"
| "js_add PInf b = PInf"
| "js_add NInf b = NInf"
| "js_add (Fin a) b = b"

definition js_sub :: "jsnum \<Rightarrow> jsnum \<Rightarrow> jsnum" where
  "js_sub a b = js_add a (js_neg b)"

text \<open>\<open>a * b\<close>: zero times an infinity is NaN; otherwise the signs multiply.\<close>

definition inf_of_sign :: "bool \<Rightarrow> jsnum" where
  "inf_of_sign positive = (if positive then PInf else NInf)"

fun js_mul :: "jsnum \<Rightarrow> jsnum \<Rightarrow> jsnum" where
  "js_mul (Fin a) (Fin b) = Fin (a * b)"
| "js_mul NaN b = NaN"
| "js_mul a NaN = NaN"
| "js_mul (Fin a) PInf = (if a = 0 then NaN else inf_of_sign (0 < a))"
| "js_mul (Fin a) NInf = (if a = 0 then NaN else inf_of_sign (a < 0))"
| "js_mul PInf (Fin b) = (if b = 0 then NaN else inf_of_sign (0 < b))"
| "js_mul NInf (Fin b) = (if b = 0 then NaN else inf_of_sign (b < 0))"
| "js_mul PInf PInf = PInf"
| "js_mul PInf NInf = NInf"
| "js_mul NInf PInf = NInf"
| "js_mul NInf NInf = PInf"


text \<open>
  A value as it arrives in a JSON request body or in a parameter whose runtime type the
  program itself inspects with \<open>typeof\<close>.
\<close>

datatype jsval = JNumber jsnum | JString string | JBoolean bool | JNull | JUndefined

definition is_number :: "jsval \<Rightarrow> bool" where
  "is_number v = (case v of JNumber _ \<Rightarrow> True | _ \<Rightarrow> False)"


section \<open>The users table (UserModel)\<close>

text \<open>
  A row of the table \<open>users\<close>. The field \<open>id\<close> of the source is \<open>uid\<close> here
  (\<open>id\<close> is the identity function of HOL). The column \<open>balance\<close> is read and written
  by the services as a JavaScript number, so it is a \<open>jsnum\<close>; the SQL engine itself
  is outside the repository and the table keeps the value it is given.
\<close>

record user =
  uid :: int
  username :: string
  email :: string
  password :: string
  balance :: jsnum

type_synonym db = "user list"

text \<open>\<open>SELECT ... WHERE id = ${id}\<close>, then \<open>users[0] || null\<close>: the first matching row.\<close>

definition UserModel_getById :: "db \<Rightarrow> int \<Rightarrow> user option" where
  "UserModel_getById d i = find (\<lambda>u. uid u = i) d"

text \<open>\<open>UPDATE users SET balance = ${newBalance} WHERE id = ${id}\<close>.\<close>

definition UserModel_updateBalance :: "db \<Rightarrow> int \<Rightarrow> jsnum \<Rightarrow> db" where
  "UserModel_updateBalance d i nb = map (\<lambda>u. if uid u = i then u\<lparr>balance := nb\<rparr> else u) d"

text \<open>\<open>UPDATE users SET password = ${newPassword} WHERE id = ${id}\<close>.\<close>

definition UserModel_updatePassword :: "db \<Rightarrow> int \<Rightarrow> string \<Rightarrow> db" where
  "UserModel_updatePassword d i pw = map (\<lambda>u. if uid u = i then u\<lparr>password := pw\<rparr> else u) d"

text \<open>Every \<open>throw new Error(msg)\<close> of the services, one constructor per message.\<close>

datatype error =
    InvalidBetInput
  | UserNotFound
  | InsufficientFunds
  | InvalidSpinResult int
  | InvalidBalanceValue
  | CurrentPasswordIncorrect
  | NewPasswordTooShort
  | TypeError


section \<open>GameService\<close>

subsection \<open>Coin flip\<close>

record coinflip_result =
  cf_outcome :: string
  cf_win :: bool
  cf_payout :: jsnum
  cf_newBalance :: jsnum

text \<open>
  \<open>GameService.playCoinFlip(userId, guess, amount)\<close>. The value \<open>rnd\<close> is what \<open>Math.random()\<close>
  returns in this call. The result is the value returned or the error thrown, paired
  with the table after the call.
\<close>

definition GameService_playCoinFlip ::
  "db \<Rightarrow> int \<Rightarrow> string \<Rightarrow> jsval \<Rightarrow> rat \<Rightarrow> (error + coinflip_result) \<times> db" where
  "GameService_playCoinFlip d userId guess amount rnd =
     (case amount of
        JNumber a \<Rightarrow>
          if guess = [] \<or> js_le a (Fin 0) then (Inl InvalidBetInput, d)
          else (case UserModel_getById d userId of
              None \<Rightarrow> (Inl UserNotFound, d)
            | Some u \<Rightarrow>
                if js_gt a (balance u) then (Inl InsufficientFunds, d)
                else
                  let outcome = (if rnd < 1 / 2 then ''heads'' else ''tails'');
                      win = (guess = outcome);
                      payout = (if win then js_mul a (Fin (195 / 100)) else Fin 0);
                      newBalance = js_add (js_sub (balance u) a) payout
                  in (Inr \<lparr>cf_outcome = outcome, cf_win = win, cf_payout = payout,
                            cf_newBalance = newBalance\<rparr>,
                      UserModel_updateBalance d userId newBalance))
      | _ \<Rightarrow> (Inl InvalidBetInput, d))"

subsection \<open>Roulette\<close>

record pocket =
  number :: int
  color :: string

definition ROULETTE_NUMBERS :: "pocket list" where
  "ROULETTE_NUMBERS =
    [\<lparr>number = 0, color = ''green''\<rparr>,
     \<lparr>number = 32, color = ''red''\<rparr>,
     \<lparr>number = 15, color = ''black''\<rparr>,
     \<lparr>number = 19, color = ''red''\<rparr>,
     \<lparr>number = 4, color = ''black''\<rparr>,
     \<lparr>number = 21, color = ''red''\<rparr>,
     \<lparr>number = 2, color = ''black''\<rparr>,
     \<lparr>number = 25, color = ''red''\<rparr>,
     \<lparr>number = 17, color = ''black''\<rparr>,
     \<lparr>number = 34, color = ''red''\<rparr>,
     \<lparr>number = 6, color = ''black''\<rparr>,
     \<lparr>number = 27, color = ''red''\<rparr>,
     \<lparr>number = 13, color = ''black''\<rparr>,
     \<lparr>number = 36, color = ''red''\<rparr>,
     \<lparr>number = 11, color = ''black''\<rparr>,
     \<lparr>number = 30, color = ''red''\<rparr>,
     \<lparr>number = 8, color = ''black''\<rparr>,
     \<lparr>number = 23, color = ''red''\<rparr>,
     \<lparr>number = 10, color = ''black''\<rparr>,
     \<lparr>number = 5, color = ''red''\<rparr>,
     \<lparr>number = 24, color = ''black''\<rparr>,
     \<lparr>number = 16, color = ''red''\<rparr>,
     \<lparr>number = 33, color = ''black''\<rparr>,
     \<lparr>number = 1, color = ''red''\<rparr>,
     \<lparr>number = 20, color = ''black''\<rparr>,
     \<lparr>number = 14, color = ''red''\<rparr>,
     \<lparr>number = 31, color = ''black''\<rparr>,
     \<lparr>number = 9, color = ''red''\<rparr>,
     \<lparr>number = 22, color = ''black''\<rparr>,
     \<lparr>number = 18, color = ''red''\<rparr>,
     \<lparr>number = 29, color = ''black''\<rparr>,
     \<lparr>number = 7, color = ''red''\<rparr>,
     \<lparr>number = 28, color = ''black''\<rparr>,
     \<lparr>number = 12, color = ''red''\<rparr>,
     \<lparr>number = 35, color = ''black''\<rparr>,
     \<lparr>number = 3, color = ''red''\<rparr>,
     \<lparr>number = 26, color = ''black''\<rparr>]"

text \<open>\<open>Math.floor(Math.random() * 37)\<close>, with \<open>rnd\<close> the value of \<open>Math.random()\<close>.\<close>

definition getRandomResult :: "rat \<Rightarrow> int" where
  "getRandomResult rnd = \<lfloor>rnd * 37\<rfloor>"

definition getResultDetails :: "int \<Rightarrow> pocket option" where
  "getResultDetails n = find (\<lambda>x. number x = n) ROULETTE_NUMBERS"

text \<open>\<open>Number.prototype.toString\<close> on an integer: its decimal digits.\<close>

definition digit_char :: "nat \<Rightarrow> char" where
  "digit_char n = ''0123456789'' ! n"

fun digits :: "nat \<Rightarrow> string" where
  "digits n = (if n < 10 then [digit_char n]
               else digits (n div 10) @ [digit_char (n mod 10)])"

definition toString :: "int \<Rightarrow> string" where
  "toString i = (if i < 0 then CHR ''-'' # digits (nat (- i)) else digits (nat i))"

record roulette_result =
  rl_result :: int
  rl_color :: string
  rl_win :: bool
  rl_payout :: jsnum
  rl_newBalance :: jsnum

text \<open>
  The \<open>if\<close>/\<open>else if\<close> chain of \<open>playRoulette\<close> that sets \<open>win\<close> and
  \<open>payoutMultiplier\<close>, in the order of the source. The chain is reached with
  \<open>resultNumber\<close> a pocket of the table, so never negative, where \<open>%\<close> is \<open>mod\<close>.
\<close>

definition matchBet :: "string \<Rightarrow> pocket \<Rightarrow> int \<Rightarrow> bool \<times> rat" where
  "matchBet betType result resultNumber =
     (if betType = toString (number result) then (True, 35)
      else if betType = color result then (True, 1)
      else if betType = ''even'' \<and> resultNumber \<noteq> 0 \<and> resultNumber mod 2 = 0 then (True, 1)
      else if betType = ''odd'' \<and> resultNumber mod 2 = 1 then (True, 1)
      else if betType = ''1-12'' \<and> resultNumber \<ge> 1 \<and> resultNumber \<le> 12 then (True, 2)
      else if betType = ''13-24'' \<and> resultNumber \<ge> 13 \<and> resultNumber \<le> 24 then (True, 2)
      else if betType = ''25-36'' \<and> resultNumber \<ge> 25 \<and> resultNumber \<le> 36 then (True, 2)
      else (False, 0))"

text \<open>
  \<open>GameService.playRoulette(userId, betType, amount)\<close>, with \<open>amount\<close> of the declared type
  \<open>number\<close> (the function has no \<open>typeof\<close> test) and \<open>rnd\<close> the value of
  \<open>Math.random()\<close> in this call.
\<close>

definition GameService_playRoulette ::
  "db \<Rightarrow> int \<Rightarrow> string \<Rightarrow> jsnum \<Rightarrow> rat \<Rightarrow> (error + roulette_result) \<times> db" where
  "GameService_playRoulette d userId betType amount rnd =
     (case UserModel_getById d userId of
        None \<Rightarrow> (Inl UserNotFound, d)
      | Some u \<Rightarrow>
          if js_gt amount (balance u) then (Inl InsufficientFunds, d)
          else
            let resultNumber = getRandomResult rnd in
            (case getResultDetails resultNumber of
               None \<Rightarrow> (Inl (InvalidSpinResult resultNumber), d)
             | Some result \<Rightarrow>
                 let (win, payoutMultiplier) = matchBet betType result resultNumber;
                     payout = (if win then js_mul amount (Fin payoutMultiplier) else Fin 0);
                     newBalance = (if win then js_add (balance u) payout
                                   else js_sub (balance u) amount)
                 in (Inr \<lparr>rl_result = number result, rl_color = color result, rl_win = win,
                           rl_payout = payout, rl_newBalance = newBalance\<rparr>,
                     UserModel_updateBalance d userId newBalance)))"


section \<open>AuthService\<close>


text \<open>\<open>AuthService.updatePassword(userId, currentPassword, newPassword)\<close>.\<close>

definition AuthService_updatePassword ::
  "db \<Rightarrow> int \<Rightarrow> string \<Rightarrow> string \<Rightarrow> (error + unit) \<times> db" where
  "AuthService_updatePassword d userId currentPassword newPassword =
     (case UserModel_getById d userId of
        None \<Rightarrow> (Inl UserNotFound, d)
      | Some u \<Rightarrow>
          if password u \<noteq> currentPassword then (Inl CurrentPasswordIncorrect, d)
          else if length newPassword < 6 then (Inl NewPasswordTooShort, d)
          else (Inr (), UserModel_updatePassword d userId newPassword))"

definition AuthService_getProfile :: "db \<Rightarrow> int \<Rightarrow> user option" where
  "AuthService_getProfile d userId = UserModel_getById d userId"


section \<open>Session, Response and Controller\<close>

text \<open>
  The value stored under a session key: \<open>null\<close>, or the object \<open>{ id }\<close> that
  \<open>register\<close> and \<open>login\<close> store under \<open>"user"\<close>.
\<close>

datatype session_entry = SNull | SUser int

type_synonym session = "string \<rightharpoonup> session_entry"

text \<open>\<open>Session.get(name)\<close>: \<open>this.data[name] ?? null\<close>.\<close>

definition Session_get :: "session \<Rightarrow> string \<Rightarrow> session_entry" where
  "Session_get s name = (case s name of None \<Rightarrow> SNull | Some v \<Rightarrow> v)"

text \<open>\<open>Session.set(name, value)\<close>.\<close>

definition Session_set :: "session \<Rightarrow> string \<Rightarrow> session_entry \<Rightarrow> session" where
  "Session_set s name v = s(name \<mapsto> v)"

text \<open>\<open>AuthService.logout(session)\<close>: \<open>session.set("user", null)\<close>.\<close>

definition AuthService_logout :: "session \<Rightarrow> session" where
  "AuthService_logout s = Session_set s ''user'' SNull"

datatype StatusCode =
  OK | Created | NoContent | BadRequest | Unauthorized | Forbidden | NotFound
  | InternalServerError

fun status_number :: "StatusCode \<Rightarrow> nat" where
  "status_number OK = 200"
| "status_number Created = 201"
| "status_number NoContent = 204"
| "status_number BadRequest = 400"
| "status_number Unauthorized = 401"
| "status_number Forbidden = 403"
| "status_number NotFound = 404"
| "status_number InternalServerError = 500"

datatype payload =
    CoinFlipPayload coinflip_result
  | RoulettePayload roulette_result
  | BlackjackPayload bool jsnum
  | ProfilePayload user
  | BalancePayload jsnum

text \<open>The argument of \<open>res.send\<close> (\<open>ResponseProps\<close>).\<close>

record response =
  statusCode :: StatusCode
  message :: string
  payload :: "payload option"

text \<open>
  \<open>err.message\<close> of each error thrown by the services. The text of a \<open>TypeError\<close>
  is chosen by the JavaScript engine (it is never empty); its name stands for it here.
\<close>

fun error_message :: "error \<Rightarrow> string" where
  "error_message InvalidBetInput = ''Invalid bet input''"
| "error_message UserNotFound = ''User not found''"
| "error_message InsufficientFunds = ''Insufficient funds''"
| "error_message (InvalidSpinResult n) =
     ''Invalid spin result: '' @ toString n @ '' not in ROULETTE_NUMBERS''"
| "error_message InvalidBalanceValue = ''Invalid balance value''"
| "error_message CurrentPasswordIncorrect = ''Current password is incorrect''"
| "error_message NewPasswordTooShort = ''New password must be at least 6 characters''"
| "error_message TypeError = ''TypeError''"

text \<open>\<open>err.message || fallback\<close>: the empty string is falsy.\<close>

definition message_or :: "error \<Rightarrow> string \<Rightarrow> string" where
  "message_or err fallback = (if error_message err = [] then fallback else error_message err)"

definition not_logged_in :: response where
  "not_logged_in = \<lparr>statusCode = Unauthorized, message = ''Not logged in'', payload = None\<rparr>"

text \<open>\<open>String.prototype.toLowerCase\<close> on the ASCII letters.\<close>

definition lower_char :: "char \<Rightarrow> char" where
  "lower_char c =
     (case map_of (zip ''ABCDEFGHIJKLMNOPQRSTUVWXYZ'' ''abcdefghijklmnopqrstuvwxyz'') c of
        Some l \<Rightarrow> l
      | None \<Rightarrow> c)"

definition toLowerCase :: "string \<Rightarrow> string" where
  "toLowerCase s = map lower_char s"

text \<open>
  The handlers of \<open>Controller\<close>. Each takes the session of the request, the fields it
  destructures from \<open>req.body\<close>, and the table; it returns the response sent and the
  table after the call. A body field that the program itself inspects at run time
  (\<open>typeof\<close>, or a method call that can throw) is a \<open>jsval\<close>; a field that is only
  passed on to a service has the type of that service's parameter. \<open>!user?.id\<close> holds
  for \<open>null\<close> and for an id of \<open>0\<close>.
\<close>

definition Controller_playRoulette ::
  "session \<Rightarrow> string \<Rightarrow> jsnum \<Rightarrow> db \<Rightarrow> rat \<Rightarrow> response \<times> db" where
  "Controller_playRoulette sess betType amount d rnd =
     (case Session_get sess ''user'' of
        SNull \<Rightarrow> (not_logged_in, d)
      | SUser i \<Rightarrow>
          if i = 0 then (not_logged_in, d)
          else (case GameService_playRoulette d i betType amount rnd of
              (Inr result, d') \<Rightarrow>
                (\<lparr>statusCode = OK, message = ''Roulette result'',
                  payload = Some (RoulettePayload result)\<rparr>, d')
            | (Inl err, d') \<Rightarrow>
                (\<lparr>statusCode = BadRequest, message = message_or err ''Spin failed'',
                  payload = None\<rparr>, d')))"

definition Controller_playBlackjack :: "session \<Rightarrow> db \<Rightarrow> response \<times> db" where
  "Controller_playBlackjack sess d =
     (\<lparr>statusCode = OK, message = ''Blackjack result'',
       payload = Some (BlackjackPayload False (Fin 0))\<rparr>, d)"

definition Controller_playCoinFlip ::
  "session \<Rightarrow> jsval \<Rightarrow> jsval \<Rightarrow> db \<Rightarrow> rat \<Rightarrow> response \<times> db" where
  "Controller_playCoinFlip sess guess amount d rnd =
     (case Session_get sess ''user'' of
        SNull \<Rightarrow> (not_logged_in, d)
      | SUser i \<Rightarrow>
          if i = 0 then (not_logged_in, d)
          else (case guess of
              JString g \<Rightarrow>
                (case GameService_playCoinFlip d i (toLowerCase g) amount rnd of
                   (Inr result, d') \<Rightarrow>
                     (\<lparr>statusCode = OK, message = ''Coin flip result'',
                       payload = Some (CoinFlipPayload result)\<rparr>, d')
                 | (Inl err, d') \<Rightarrow>
                     (\<lparr>statusCode = BadRequest, message = message_or err ''Flip failed'',
                       payload = None\<rparr>, d'))
            | _ \<Rightarrow>
                (\<lparr>statusCode = BadRequest, message = message_or TypeError ''Flip failed'',
                  payload = None\<rparr>, d)))"

definition Controller_profile :: "session \<Rightarrow> db \<Rightarrow> response \<times> db" where
  "Controller_profile sess d =
     (case Session_get sess ''user'' of
        SNull \<Rightarrow> (not_logged_in, d)
      | SUser i \<Rightarrow>
          if i = 0 then (not_logged_in, d)
          else (case AuthService_getProfile d i of
              None \<Rightarrow>
                (\<lparr>statusCode = NotFound, message = ''User not found'', payload = None\<rparr>, d)
            | Some u \<Rightarrow>
                (\<lparr>statusCode = OK, message = ''Profile fetched'',
                  payload = Some (ProfilePayload u)\<rparr>, d)))"

text \<open>\<open>POST /user/balance\<close>: the handler writes the table itself.\<close>

definition Controller_setBalance :: "session \<Rightarrow> jsval \<Rightarrow> db \<Rightarrow> response \<times> db" where
  "Controller_setBalance sess bal d =
     (case Session_get sess ''user'' of
        SNull \<Rightarrow> (not_logged_in, d)
      | SUser i \<Rightarrow>
          if i = 0 then (not_logged_in, d)
          else (case bal of
              JNumber n \<Rightarrow>
                if js_less n (Fin 0) then
                  (\<lparr>statusCode = BadRequest, message = ''Invalid balance'', payload = None\<rparr>, d)
                else
                  (\<lparr>statusCode = OK, message = ''Balance updated'',
                    payload = Some (BalancePayload n)\<rparr>,
                   map (\<lambda>u. if uid u = i then u\<lparr>balance := n\<rparr> else u) d)
            | _ \<Rightarrow>
                (\<lparr>statusCode = BadRequest, message = ''Invalid balance'', payload = None\<rparr>, d)))"


definition Controller_updatePassword ::
  "session \<Rightarrow> string \<Rightarrow> string \<Rightarrow> db \<Rightarrow> response \<times> db" where
  "Controller_updatePassword sess currentPassword newPassword d =
     (case Session_get sess ''user'' of
        SNull \<Rightarrow>
          (\<lparr>statusCode = Unauthorized, message = ''Not authenticated'', payload = None\<rparr>, d)
      | SUser i \<Rightarrow>
          if i = 0 then
            (\<lparr>statusCode = Unauthorized, message = ''Not authenticated'', payload = None\<rparr>, d)
          else (case AuthService_updatePassword d i currentPassword newPassword of
              (Inr _, d') \<Rightarrow>
                (\<lparr>statusCode = OK, message = ''Password updated successfully'',
                  payload = None\<rparr>, d')
            | (Inl err, d') \<Rightarrow>
                (\<lparr>statusCode = BadRequest, message = message_or err ''Password update failed'',
                  payload = None\<rparr>, d')))"

text \<open>\<open>POST /auth/logout\<close>: returns the response and the session after the call.\<close>

definition Controller_logout :: "session \<Rightarrow> response \<times> session" where
  "Controller_logout sess =
     (\<lparr>statusCode = OK, message = ''Logged out successfully'', payload = None\<rparr>,
      AuthService_logout sess)"

text \<open>\<open>registerRoutes\<close>: the registrations, in the order of the source.\<close>

datatype http_method = GET | POST | PUT

datatype handler =
    H_register | H_login | H_getGames | H_profile | H_playRoulette | H_playBlackjack
  | H_playCoinFlip | H_setBalance | H_updateBalance | H_getLeaderboard | H_updateProfile
  | H_updatePassword | H_logout

definition registerRoutes :: "(http_method \<times> string \<times> handler) list" where
  "registerRoutes =
    [(POST, ''/register'', H_register),
     (POST, ''/login'', H_login),
     (GET, ''/games'', H_getGames),
     (GET, ''/profile'', H_profile),
     (POST, ''/play/roulette'', H_playRoulette),
     (POST, ''/play/blackjack'', H_playBlackjack),
     (POST, ''/play/coinflip'', H_playCoinFlip),
     (POST, ''/user/balance'', H_setBalance),
     (POST, ''/api/users/updateBalance'', H_updateBalance),
     (GET, ''/leaderboard'', H_getLeaderboard),
     (PUT, ''/user/profile'', H_updateProfile),
     (PUT, ''/user/password'', H_updatePassword),
     (POST, ''/auth/logout'', H_logout)]"


section \<open>The blackjack page of the client\<close>

text \<open>
  A card as the deck service returns it; only the field \<open>value\<close> is read by the
  functions below (it is \<open>card_value\<close> here, \<open>value\<close> being a command of Isabelle).
\<close>

record card =
  card_value :: string
  suit :: string

text \<open>
  \<open>parseInt(v, 10)\<close>: leading white space is skipped, an optional sign is read, then
  the longest prefix of decimal digits; without a digit the result is NaN.
\<close>

definition is_space :: "char \<Rightarrow> bool" where
  "is_space c = (c \<in> set [CHR '' '', CHR 0x09, CHR 0x0A, CHR 0x0B, CHR 0x0C, CHR 0x0D])"

definition digit_val :: "char \<Rightarrow> nat option" where
  "digit_val c = map_of (zip ''0123456789'' [0, 1, 2, 3, 4, 5, 6, 7, 8, 9]) c"

definition is_digit :: "char \<Rightarrow> bool" where
  "is_digit c = (digit_val c \<noteq> None)"

text \<open>The number written by a list of digits, most significant first.\<close>

fun digits_value :: "nat \<Rightarrow> string \<Rightarrow> nat" where
  "digits_value acc [] = acc"
| "digits_value acc (c # cs) =
     digits_value (10 * acc + (case digit_val c of Some v \<Rightarrow> v | None \<Rightarrow> 0)) cs"

definition parseInt10 :: "string \<Rightarrow> jsnum" where
  "parseInt10 s =
     (let s1 = dropWhile is_space s;
          negative = (case s1 of c # _ \<Rightarrow> c = CHR ''-'' | [] \<Rightarrow> False);
          s2 = (case s1 of c # cs \<Rightarrow> if c = CHR ''+'' \<or> c = CHR ''-'' then cs else s1 | [] \<Rightarrow> s1);
          z = takeWhile is_digit s2
      in if z = [] then NaN
         else if negative then Fin (- of_nat (digits_value 0 z))
         else Fin (of_nat (digits_value 0 z)))"

definition BLACKJACK :: jsnum where
  "BLACKJACK = Fin 21"

text \<open>
  The body of the \<open>forEach\<close> of \<open>getHandValue\<close>, on the pair \<open>(total, aces)\<close>
  (\<open>total\<close> is \<open>tot\<close> here).
\<close>

definition addCard :: "card \<Rightarrow> jsnum \<times> nat \<Rightarrow> jsnum \<times> nat" where
  "addCard c acc =
     (let v = card_value c; tot = fst acc; aces = snd acc in
      if v \<in> set [''KING'', ''QUEEN'', ''JACK''] then (js_add tot (Fin 10), aces)
      else if v = ''ACE'' then (js_add tot (Fin 11), aces + 1)
      else (js_add tot (parseInt10 v), aces))"

text \<open>\<open>while (total > BLACKJACK && aces > 0) { total -= 10; aces--; }\<close>\<close>

fun demoteAces :: "jsnum \<Rightarrow> nat \<Rightarrow> jsnum" where
  "demoteAces tot aces =
     (if js_gt tot BLACKJACK \<and> aces > 0 then demoteAces (js_sub tot (Fin 10)) (aces - 1)
      else tot)"

definition getHandValue :: "card list \<Rightarrow> jsnum" where
  "getHandValue cards = (let (tot, aces) = fold addCard cards (Fin 0, 0) in demoteAces tot aces)"







section \<open>The rules as the specification words them\<close>

text \<open>
  The roulette table of the specification: the rules in their order of precedence, each
  a condition on the selector, the outcome number and the outcome colour, with its
  multiplier. The first rule whose condition holds decides; when none holds the bet is
  lost.
\<close>

definition spec_roulette_rules :: "((string \<Rightarrow> int \<Rightarrow> string \<Rightarrow> bool) \<times> rat) list" where
  "spec_roulette_rules =
    [(\<lambda>s n c. s = toString n, 35),
     (\<lambda>s n c. s = c, 1),
     (\<lambda>s n c. s = ''even'' \<and> n \<noteq> 0 \<and> even n, 1),
     (\<lambda>s n c. s = ''odd'' \<and> odd n, 1),
     (\<lambda>s n c. s = ''1-12'' \<and> 1 \<le> n \<and> n \<le> 12, 2),
     (\<lambda>s n c. s = ''13-24'' \<and> 13 \<le> n \<and> n \<le> 24, 2),
     (\<lambda>s n c. s = ''25-36'' \<and> 25 \<le> n \<and> n \<le> 36, 2)]"

definition spec_roulette_multiplier :: "string \<Rightarrow> int \<Rightarrow> string \<Rightarrow> rat option" where
  "spec_roulette_multiplier s n c =
     map_option snd (find (\<lambda>rule. fst rule s n c) spec_roulette_rules)"

text \<open>
  The hand value of the specification, on the ranks of a hand: face cards count 10,
  numeral cards their face value, each ace 11; then 10 is taken off once per ace while
  the total exceeds 21, which is \<open>min\<close> of the number of aces and the number of tens
  that must go to reach 21 or less.
\<close>

definition spec_rank_points :: "string \<Rightarrow> int" where
  "spec_rank_points v =
     (if v \<in> set [''KING'', ''QUEEN'', ''JACK''] then 10
      else if v = ''ACE'' then 11
      else (case map_of [(''2'', 2), (''3'', 3), (''4'', 4), (''5'', 5), (''6'', 6),
                         (''7'', 7), (''8'', 8), (''9'', 9), (''10'', 10)] v of
              Some p \<Rightarrow> p | None \<Rightarrow> 0))"

definition ranks :: "string list" where
  "ranks = [''ACE'', ''KING'', ''QUEEN'', ''JACK'', ''10'', ''9'', ''8'', ''7'', ''6'', ''5'',
            ''4'', ''3'', ''2'']"

definition is_rank :: "string \<Rightarrow> bool" where
  "is_rank v = (v \<in> set ranks)"

definition spec_demotions :: "int \<Rightarrow> nat \<Rightarrow> nat" where
  "spec_demotions raw aces = min aces (nat ((raw - 12) div 10))"

definition spec_hand_value :: "string list \<Rightarrow> int" where
  "spec_hand_value vs =
     (let raw = sum_list (map spec_rank_points vs);
          aces = length (filter (\<lambda>v. v = ''ACE'') vs)
      in raw - 10 * int (spec_demotions raw aces))"



section \<open>Inputs used in the examples\<close>

definition ann :: user where
  "ann = \<lparr>uid = 1, username = ''ann'', email = ''ann@example.com'', password = ''secret1'',
          balance = Fin 100\<rparr>"

definition db1 :: db where
  "db1 = [ann]"

definition no_session :: session where
  "no_session = Map.empty"

definition ann_session :: session where
  "ann_session = Session_set Map.empty ''user'' (SUser 1)"

definition mk_card :: "string \<Rightarrow> card" where
  "mk_card v = \<lparr>card_value = v, suit = ''SPADES''\<rparr>"


section \<open>Lemmas about the table and the numbers\<close>



lemma getById_updatePassword:
  "UserModel_getById (UserModel_updatePassword d i pw) i =
     map_option (\<lambda>u. u\<lparr>password := pw\<rparr>) (UserModel_getById d i)"
  unfolding UserModel_getById_def UserModel_updatePassword_def
  by (induction d) auto

lemma getById_updatePassword_other:
  "j \<noteq> i \<Longrightarrow> UserModel_getById (UserModel_updatePassword d i pw) j = UserModel_getById d j"
  unfolding UserModel_getById_def UserModel_updatePassword_def
  by (induction d) auto



lemma numbers_of_table:
  "map number ROULETTE_NUMBERS =
     [0, 32, 15, 19, 4, 21, 2, 25, 17, 34, 6, 27, 13, 36, 11, 30, 8, 23, 10, 5, 24, 16, 33, 1,
      20, 14, 31, 9, 22, 18, 29, 7, 28, 12, 35, 3, 26]"
  by (simp add: ROULETTE_NUMBERS_def)

lemma getResultDetails_number: "getResultDetails n = Some p \<Longrightarrow> number p = n"
  unfolding getResultDetails_def by (auto simp: find_Some_iff)

text \<open>Every pocket from 0 to 36 is in the table, so a spin never fails.\<close>

lemma getResultDetails_total:
  assumes "0 \<le> n" "n \<le> 36"
  shows "\<exists>p. getResultDetails n = Some p"
proof -
  have "n \<in> set (map number ROULETTE_NUMBERS)"
    using assms unfolding numbers_of_table by (simp; presburger)
  then obtain p where "p \<in> set ROULETTE_NUMBERS" "number p = n" by auto
  then have "find (\<lambda>x. number x = n) ROULETTE_NUMBERS \<noteq> None"
    by (auto simp: find_None_iff)
  then show ?thesis unfolding getResultDetails_def by auto
qed

lemma getRandomResult_range:
  assumes "0 \<le> rnd" "rnd < 1"
  shows "0 \<le> getRandomResult rnd \<and> getRandomResult rnd \<le> 36"
proof -
  have "0 \<le> rnd * 37" using assms by simp
  moreover have "rnd * 37 < 37" using assms by simp
  ultimately show ?thesis unfolding getRandomResult_def
    by (simp add: floor_less_iff)
qed

text \<open>The chain of \<open>playRoulette\<close> computes the first matching rule of the table.\<close>

lemma matchBet_spec:
  assumes "number p = n" "0 \<le> n"
  shows "matchBet s p n =
          (case spec_roulette_multiplier s n (color p) of
             Some m \<Rightarrow> (True, m) | None \<Rightarrow> (False, 0))"
  using assms unfolding matchBet_def spec_roulette_multiplier_def spec_roulette_rules_def
  by (auto simp: even_iff_mod_2_eq_zero odd_iff_mod_2_eq_one)

lemma playRoulette_settles:
  assumes "UserModel_getById d userId = Some u" "\<not> js_gt amount (balance u)"
    "getResultDetails (getRandomResult rnd) = Some p"
  shows "GameService_playRoulette d userId betType amount rnd =
          (let wm = matchBet betType p (getRandomResult rnd);
               payout = (if fst wm then js_mul amount (Fin (snd wm)) else Fin 0);
               newBalance = (if fst wm then js_add (balance u) payout
                             else js_sub (balance u) amount)
           in (Inr \<lparr>rl_result = number p, rl_color = color p, rl_win = fst wm,
                     rl_payout = payout, rl_newBalance = newBalance\<rparr>,
               UserModel_updateBalance d userId newBalance))"
  using assms unfolding GameService_playRoulette_def
  by (simp add: Let_def split: prod.splits)

text \<open>Concrete runs used in the examples below.\<close>

lemma run_roulette_17:
  "GameService_playRoulette db1 1 ''17'' (Fin 10) (17 / 37) =
     (Inr \<lparr>rl_result = 17, rl_color = ''black'', rl_win = True, rl_payout = Fin 350,
           rl_newBalance = Fin 450\<rparr>,
      [ann\<lparr>balance := Fin 450\<rparr>])"
  by (simp add: GameService_playRoulette_def db1_def ann_def UserModel_getById_def js_gt_def
      getRandomResult_def getResultDetails_def ROULETTE_NUMBERS_def matchBet_def toString_def
      UserModel_updateBalance_def digit_char_def Let_def)

lemma run_roulette_dozen_zero:
  "GameService_playRoulette db1 1 ''1-12'' (Fin 10) 0 =
     (Inr \<lparr>rl_result = 0, rl_color = ''green'', rl_win = False, rl_payout = Fin 0,
           rl_newBalance = Fin 90\<rparr>,
      [ann\<lparr>balance := Fin 90\<rparr>])"
  by (simp add: GameService_playRoulette_def db1_def ann_def UserModel_getById_def js_gt_def
      getRandomResult_def getResultDetails_def ROULETTE_NUMBERS_def matchBet_def toString_def
      UserModel_updateBalance_def digit_char_def Let_def js_sub_def)

lemma run_roulette_red:
  "GameService_playRoulette db1 1 ''red'' (Fin 10) (1 / 37) =
     (Inr \<lparr>rl_result = 1, rl_color = ''red'', rl_win = True, rl_payout = Fin 10,
           rl_newBalance = Fin 110\<rparr>,
      [ann\<lparr>balance := Fin 110\<rparr>])"
  by (simp add: GameService_playRoulette_def db1_def ann_def UserModel_getById_def js_gt_def
      getRandomResult_def getResultDetails_def ROULETTE_NUMBERS_def matchBet_def toString_def
      UserModel_updateBalance_def digit_char_def Let_def)

lemma run_coinflip_heads:
  "GameService_playCoinFlip db1 1 ''heads'' (JNumber (Fin 10)) 0 =
     (Inr \<lparr>cf_outcome = ''heads'', cf_win = True, cf_payout = Fin (39 / 2),
           cf_newBalance = Fin (219 / 2)\<rparr>,
      [ann\<lparr>balance := Fin (219 / 2)\<rparr>])"
  by (simp add: GameService_playCoinFlip_def db1_def ann_def UserModel_getById_def js_gt_def
      js_le_def js_sub_def UserModel_updateBalance_def Let_def)

lemma run_coinflip_tails:
  "GameService_playCoinFlip db1 1 ''heads'' (JNumber (Fin 10)) (3 / 4) =
     (Inr \<lparr>cf_outcome = ''tails'', cf_win = False, cf_payout = Fin 0,
           cf_newBalance = Fin 90\<rparr>,
      [ann\<lparr>balance := Fin 90\<rparr>])"
  by (simp add: GameService_playCoinFlip_def db1_def ann_def UserModel_getById_def js_gt_def
      js_le_def js_sub_def UserModel_updateBalance_def Let_def)

lemma getById_db1: "UserModel_getById db1 1 = Some ann"
  by (simp add: db1_def ann_def UserModel_getById_def)


section \<open>Settlement by the game resolvers\<close>




text \<open>
  C2. The code breaks the claim. \<open>playRoulette\<close> has no test of the amount: a bet of
  \<open>-5\<close> is settled, and on a loss the balance rises from 100 to 105. \<open>playCoinFlip\<close>
  tests \<open>amount <= 0\<close>, which NaN passes: the bet is settled and NaN is persisted as the
  balance. An infinite amount is rejected by \<open>playCoinFlip\<close> as insufficient funds, not
  as an invalid bet.
\<close>

theorem bet_validation_gaps:
  "GameService_playRoulette db1 1 ''red'' (Fin (- 5)) 0 =
     (Inr \<lparr>rl_result = 0, rl_color = ''green'', rl_win = False, rl_payout = Fin 0,
           rl_newBalance = Fin 105\<rparr>,
      [ann\<lparr>balance := Fin 105\<rparr>])
   \<and> GameService_playCoinFlip db1 1 ''heads'' (JNumber NaN) 0 =
     (Inr \<lparr>cf_outcome = ''heads'', cf_win = True, cf_payout = NaN, cf_newBalance = NaN\<rparr>,
      [ann\<lparr>balance := NaN\<rparr>])
   \<and> GameService_playCoinFlip db1 1 ''heads'' (JNumber PInf) 0 = (Inl InsufficientFunds, db1)"
  by (simp add: GameService_playRoulette_def GameService_playCoinFlip_def db1_def ann_def
      UserModel_getById_def js_gt_def js_le_def js_sub_def getRandomResult_def
      getResultDetails_def ROULETTE_NUMBERS_def matchBet_def toString_def
      UserModel_updateBalance_def digit_char_def Let_def)



text \<open>
  C5. For a user who can cover the amount and a draw \<open>Math.random()\<close> in \<open>[0, 1)\<close>,
  \<open>playRoulette\<close> settles the bet on the pocket \<open>floor(random * 37)\<close> with the colour of
  the table, and the win and the payout are those of the first matching rule of the
  specification's table, in its order: exact number (35), colour (1), \<open>"even"\<close> with
  outcome not 0 and even (1), \<open>"odd"\<close> (1), the three dozens (2); no rule matching is a
  loss with payout 0; on a win the payout is \<open>amount * multiplier\<close>. In particular
  \<open>"1-12"\<close> loses on the pocket 0.
\<close>

theorem roulette_precedence:
  assumes "UserModel_getById d userId = Some u"
    and "\<not> js_gt amount (balance u)"
    and "0 \<le> rnd" and "rnd < 1"
  shows "\<exists>q p. fst (GameService_playRoulette d userId betType amount rnd) = Inr q
           \<and> getResultDetails \<lfloor>rnd * 37\<rfloor> = Some p
           \<and> rl_result q = \<lfloor>rnd * 37\<rfloor> \<and> rl_color q = color p
           \<and> rl_win q = (spec_roulette_multiplier betType (rl_result q) (rl_color q) \<noteq> None)
           \<and> rl_payout q =
               (case spec_roulette_multiplier betType (rl_result q) (rl_color q) of
                  Some m \<Rightarrow> js_mul amount (Fin m) | None \<Rightarrow> Fin 0)
           \<and> (betType = ''1-12'' \<and> rl_result q = 0 \<longrightarrow> \<not> rl_win q \<and> rl_payout q = Fin 0)"
proof -
  let ?n = "getRandomResult rnd"
  have range: "0 \<le> ?n" "?n \<le> 36"
    using getRandomResult_range [OF assms(3,4)] by simp_all
  then obtain p where p: "getResultDetails ?n = Some p"
    using getResultDetails_total by blast
  have np: "number p = ?n"
    using getResultDetails_number [OF p] .
  have mb: "matchBet betType p ?n =
      (case spec_roulette_multiplier betType ?n (color p) of
         Some m \<Rightarrow> (True, m) | None \<Rightarrow> (False, 0))"
    using matchBet_spec [OF np range(1)] .
  have dozen: "spec_roulette_multiplier ''1-12'' 0 c = None \<or> c = ''1-12''" for c
    by (simp add: spec_roulette_multiplier_def spec_roulette_rules_def toString_def
        digit_char_def)
  have colour: "color p \<noteq> ''1-12''"
  proof -
    have "p \<in> set ROULETTE_NUMBERS"
      using p unfolding getResultDetails_def by (auto simp: find_Some_iff)
    then show ?thesis
      unfolding ROULETTE_NUMBERS_def by auto
  qed
  have floor_n: "\<lfloor>rnd * 37\<rfloor> = ?n"
    by (simp add: getRandomResult_def)
  show ?thesis
    unfolding floor_n playRoulette_settles [OF assms(1,2) p]
    using dozen [of "color p"] colour
    by (auto simp: Let_def mb np p split: option.splits)
qed

theorem roulette_precedence_witness:
  "fst (GameService_playRoulette db1 1 ''17'' (Fin 10) (17 / 37))
     = Inr \<lparr>rl_result = 17, rl_color = ''black'', rl_win = True, rl_payout = Fin 350,
            rl_newBalance = Fin 450\<rparr>
   \<and> spec_roulette_multiplier ''17'' 17 ''black'' = Some 35
   \<and> js_mul (Fin 10) (Fin 35) = Fin 350
   \<and> fst (GameService_playRoulette db1 1 ''red'' (Fin 10) (1 / 37))
     = Inr \<lparr>rl_result = 1, rl_color = ''red'', rl_win = True, rl_payout = Fin 10,
            rl_newBalance = Fin 110\<rparr>
   \<and> spec_roulette_multiplier ''red'' 1 ''red'' = Some 1
   \<and> fst (GameService_playRoulette db1 1 ''1-12'' (Fin 10) 0)
     = Inr \<lparr>rl_result = 0, rl_color = ''green'', rl_win = False, rl_payout = Fin 0,
            rl_newBalance = Fin 90\<rparr>
   \<and> spec_roulette_multiplier ''1-12'' 0 ''green'' = None"
proof -
  have h1: "UserModel_getById db1 1 = Some ann" by (rule getById_db1)
  have h2: "\<not> js_gt (Fin 10) (balance ann)" by (simp add: js_gt_def ann_def)
  have h3: "(0::rat) \<le> 17 / 37" "(17::rat) / 37 < 1" "(0::rat) \<le> 0" "(0::rat) < 1"
    "(0::rat) \<le> 1 / 37" "(1::rat) / 37 < 1"
    by simp_all
  note a = roulette_precedence [OF h1 h2 h3(1) h3(2), of "''17''"]
  note b = roulette_precedence [OF h1 h2 h3(3) h3(4), of "''1-12''"]
  note c = roulette_precedence [OF h1 h2 h3(5) h3(6), of "''red''"]
  have m3: "spec_roulette_multiplier ''red'' 1 ''red'' = Some 1"
    by (simp add: spec_roulette_multiplier_def spec_roulette_rules_def toString_def
        digit_char_def)
  have m1: "spec_roulette_multiplier ''17'' 17 ''black'' = Some 35"
    by (simp add: spec_roulette_multiplier_def spec_roulette_rules_def toString_def
        digit_char_def)
  have m2: "spec_roulette_multiplier ''1-12'' 0 ''green'' = None"
    by (simp add: spec_roulette_multiplier_def spec_roulette_rules_def toString_def
        digit_char_def)
  show ?thesis
    using a b c
    by (simp add: run_roulette_17 run_roulette_dozen_zero run_roulette_red m1 m2 m3)
qed

text \<open>
  C6. For every coin flip settlement the outcome is \<open>"heads"\<close> when the draw is below
  0.5 and \<open>"tails"\<close> otherwise, \<open>win\<close> holds exactly when the guess equals the outcome,
  the payout of a win is \<open>amount * 1.95\<close> and the payout of a loss is 0.
\<close>

theorem coinflip_rule:
  assumes "fst (GameService_playCoinFlip d userId guess amount rnd) = Inr r"
  shows "\<exists>a. amount = JNumber a
           \<and> cf_outcome r = (if rnd < 1 / 2 then ''heads'' else ''tails'')
           \<and> cf_win r = (guess = cf_outcome r)
           \<and> cf_payout r = (if cf_win r then js_mul a (Fin (195 / 100)) else Fin 0)"
  using assms unfolding GameService_playCoinFlip_def
  by (auto split: jsval.splits if_splits option.splits simp: Let_def)

theorem coinflip_rule_witness:
  "fst (GameService_playCoinFlip db1 1 ''heads'' (JNumber (Fin 10)) 0)
     = Inr \<lparr>cf_outcome = ''heads'', cf_win = True, cf_payout = Fin (39 / 2),
            cf_newBalance = Fin (219 / 2)\<rparr>
   \<and> js_mul (Fin 10) (Fin (195 / 100)) = Fin (39 / 2)
   \<and> fst (GameService_playCoinFlip db1 1 ''heads'' (JNumber (Fin 10)) (3 / 4))
     = Inr \<lparr>cf_outcome = ''tails'', cf_win = False, cf_payout = Fin 0,
            cf_newBalance = Fin 90\<rparr>"
proof -
  have h1: "fst (GameService_playCoinFlip db1 1 ''heads'' (JNumber (Fin 10)) 0)
     = Inr \<lparr>cf_outcome = ''heads'', cf_win = True, cf_payout = Fin (39 / 2),
            cf_newBalance = Fin (219 / 2)\<rparr>"
    by (simp add: run_coinflip_heads)
  have h2: "fst (GameService_playCoinFlip db1 1 ''heads'' (JNumber (Fin 10)) (3 / 4))
     = Inr \<lparr>cf_outcome = ''tails'', cf_win = False, cf_payout = Fin 0,
            cf_newBalance = Fin 90\<rparr>"
    by (simp add: run_coinflip_tails)
  show ?thesis
    using coinflip_rule [OF h1] coinflip_rule [OF h2] h1 h2 by simp
qed

text \<open>
  C7. Whenever \<open>playCoinFlip\<close> or \<open>playRoulette\<close> throws (invalid input, unknown user,
  insufficient funds, or a spin outside the table), the table after the call is the
  table before it: no balance is written, and every user's persisted row is unchanged.
\<close>

theorem rejected_bet_no_write:
  "(fst (GameService_playCoinFlip d userId guess amount rnd) = Inl e \<longrightarrow>
      snd (GameService_playCoinFlip d userId guess amount rnd) = d
      \<and> UserModel_getById (snd (GameService_playCoinFlip d userId guess amount rnd)) j
          = UserModel_getById d j)
   \<and> (fst (GameService_playRoulette d userId betType amt rnd') = Inl e' \<longrightarrow>
      snd (GameService_playRoulette d userId betType amt rnd') = d
      \<and> UserModel_getById (snd (GameService_playRoulette d userId betType amt rnd')) j
          = UserModel_getById d j)"
  unfolding GameService_playCoinFlip_def GameService_playRoulette_def
  by (auto split: jsval.splits if_splits option.splits prod.splits simp: Let_def)

lemma run_rejections:
  "GameService_playCoinFlip db1 1 ''heads'' (JNumber (Fin 0)) 0 = (Inl InvalidBetInput, db1)"
  "GameService_playCoinFlip db1 2 ''heads'' (JNumber (Fin 10)) 0 = (Inl UserNotFound, db1)"
  "GameService_playCoinFlip db1 1 ''heads'' (JNumber (Fin 101)) 0 = (Inl InsufficientFunds, db1)"
  "GameService_playRoulette db1 2 ''red'' (Fin 10) 0 = (Inl UserNotFound, db1)"
  "GameService_playRoulette db1 1 ''red'' (Fin 101) 0 = (Inl InsufficientFunds, db1)"
  by (simp_all add: GameService_playCoinFlip_def GameService_playRoulette_def db1_def ann_def
      UserModel_getById_def js_gt_def js_le_def)

theorem rejected_bet_no_write_witness:
  "fst (GameService_playCoinFlip db1 1 ''heads'' (JNumber (Fin 101)) 0) = Inl InsufficientFunds
   \<and> snd (GameService_playCoinFlip db1 1 ''heads'' (JNumber (Fin 101)) 0) = db1
   \<and> UserModel_getById (snd (GameService_playCoinFlip db1 1 ''heads'' (JNumber (Fin 101)) 0)) 1
       = Some ann
   \<and> fst (GameService_playRoulette db1 1 ''red'' (Fin 101) 0) = Inl InsufficientFunds
   \<and> snd (GameService_playRoulette db1 1 ''red'' (Fin 101) 0) = db1
   \<and> UserModel_getById (snd (GameService_playRoulette db1 1 ''red'' (Fin 101) 0)) 1 = Some ann"
  using rejected_bet_no_write [of db1 1 "''heads''" "JNumber (Fin 101)" 0 InsufficientFunds 1
      "''red''" "Fin 101" 0 InsufficientFunds]
  by (simp add: run_rejections getById_db1)


section \<open>Password change\<close>

text \<open>
  C8. \<open>updatePassword\<close> fails with "User not found" when no row has the id; otherwise
  with "Current password is incorrect" when \<open>currentPassword\<close> differs from the stored
  credential, whatever the length of \<open>newPassword\<close>; otherwise with the weak-password
  error when \<open>newPassword\<close> has fewer than 6 characters; in these three cases the table
  is unchanged. Otherwise it succeeds and the user's row holds \<open>newPassword\<close>, the rows
  of other ids being as before.
\<close>

theorem updatePassword_cases:
  "(UserModel_getById d userId = None \<longrightarrow>
      AuthService_updatePassword d userId cur new = (Inl UserNotFound, d))
   \<and> (UserModel_getById d userId = Some u \<and> password u \<noteq> cur \<longrightarrow>
      AuthService_updatePassword d userId cur new = (Inl CurrentPasswordIncorrect, d))
   \<and> (UserModel_getById d userId = Some u \<and> password u = cur \<and> length new < 6 \<longrightarrow>
      AuthService_updatePassword d userId cur new = (Inl NewPasswordTooShort, d))
   \<and> (UserModel_getById d userId = Some u \<and> password u = cur \<and> 6 \<le> length new \<longrightarrow>
      fst (AuthService_updatePassword d userId cur new) = Inr ()
      \<and> UserModel_getById (snd (AuthService_updatePassword d userId cur new)) userId
          = Some (u\<lparr>password := new\<rparr>)
      \<and> (j \<noteq> userId \<longrightarrow>
          UserModel_getById (snd (AuthService_updatePassword d userId cur new)) j
            = UserModel_getById d j))"
  unfolding AuthService_updatePassword_def
  by (simp add: getById_updatePassword getById_updatePassword_other)

theorem updatePassword_cases_witness:
  "AuthService_updatePassword db1 2 ''secret1'' ''longer-secret'' = (Inl UserNotFound, db1)
   \<and> AuthService_updatePassword db1 1 ''wrong'' ''abc'' = (Inl CurrentPasswordIncorrect, db1)
   \<and> AuthService_updatePassword db1 1 ''secret1'' ''abcde'' = (Inl NewPasswordTooShort, db1)
   \<and> fst (AuthService_updatePassword db1 1 ''secret1'' ''abcdef'') = Inr ()
   \<and> UserModel_getById (snd (AuthService_updatePassword db1 1 ''secret1'' ''abcdef'')) 1
       = Some (ann\<lparr>password := ''abcdef''\<rparr>)"
proof -
  have none: "UserModel_getById db1 2 = None"
    by (simp add: db1_def ann_def UserModel_getById_def)
  have pw: "password ann = ''secret1''"
    by (simp add: ann_def)
  show ?thesis
    using updatePassword_cases [where d = db1 and userId = 2 and cur = "''secret1''"
        and new = "''longer-secret''" and u = ann and j = 1]
      updatePassword_cases [where d = db1 and userId = 1 and cur = "''wrong''"
        and new = "''abc''" and u = ann and j = 1]
      updatePassword_cases [where d = db1 and userId = 1 and cur = "''secret1''"
        and new = "''abcde''" and u = ann and j = 1]
      updatePassword_cases [where d = db1 and userId = 1 and cur = "''secret1''"
        and new = "''abcdef''" and u = ann and j = 2]
    by (simp add: none pw getById_db1)
qed


section \<open>The hand value of the blackjack page\<close>

declare demoteAces.simps [simp del]

lemma parseInt10_numerals:
  "parseInt10 ''2'' = Fin 2" "parseInt10 ''3'' = Fin 3" "parseInt10 ''4'' = Fin 4"
  "parseInt10 ''5'' = Fin 5" "parseInt10 ''6'' = Fin 6" "parseInt10 ''7'' = Fin 7"
  "parseInt10 ''8'' = Fin 8" "parseInt10 ''9'' = Fin 9" "parseInt10 ''10'' = Fin 10"
  by (simp_all add: parseInt10_def is_space_def is_digit_def digit_val_def Let_def)

lemma addCard_rank:
  assumes "is_rank (card_value c)"
  shows "addCard c (Fin (of_int t), a) =
           (Fin (of_int (t + spec_rank_points (card_value c))),
            a + (if card_value c = ''ACE'' then 1 else 0))"
  using assms unfolding is_rank_def ranks_def addCard_def spec_rank_points_def
  by (auto simp: Let_def parseInt10_numerals)

lemma fold_addCard_ranks:
  assumes "\<forall>c \<in> set cards. is_rank (card_value c)"
  shows "fold addCard cards (Fin (of_int t), a) =
           (Fin (of_int (t + sum_list (map spec_rank_points (map card_value cards)))),
            a + length (filter (\<lambda>v. v = ''ACE'') (map card_value cards)))"
  using assms
proof (induction cards arbitrary: t a)
  case Nil
  then show ?case by simp
next
  case (Cons c cards)
  have rest: "\<forall>c \<in> set cards. is_rank (card_value c)"
    using Cons.prems by simp
  have here: "is_rank (card_value c)"
    using Cons.prems by simp
  let ?p = "spec_rank_points (card_value c)"
  let ?k = "if card_value c = ''ACE'' then 1 else 0 :: nat"
  have "fold addCard (c # cards) (Fin (of_int t), a) =
          fold addCard cards (Fin (of_int (t + ?p)), a + ?k)"
    by (simp only: fold_simps addCard_rank [OF here] comp_apply)
  also have "\<dots> =
      (Fin (of_int (t + ?p + sum_list (map spec_rank_points (map card_value cards)))),
       a + ?k + length (filter (\<lambda>v. v = ''ACE'') (map card_value cards)))"
    by (rule Cons.IH [OF rest])
  finally show ?case
    by simp
qed

lemma demoteAces_int:
  "demoteAces (Fin (of_int t)) a = Fin (of_int (t - 10 * int (spec_demotions t a)))"
proof (induction a arbitrary: t)
  case 0
  show ?case
    by (subst demoteAces.simps) (simp add: spec_demotions_def)
next
  case (Suc a)
  show ?case
  proof (cases "21 < t")
    case True
    have step: "demoteAces (Fin (of_int t)) (Suc a) = demoteAces (Fin (of_int (t - 10))) a"
      using True by (subst demoteAces.simps) (simp add: js_gt_def BLACKJACK_def js_sub_def)
    have "(t - 12) div 10 = (t - 10 - 12) div 10 + 1"
      by presburger
    moreover have "0 \<le> (t - 10 - 12) div 10"
      using True by presburger
    ultimately have "spec_demotions t (Suc a) = Suc (spec_demotions (t - 10) a)"
      unfolding spec_demotions_def by (simp add: nat_add_distrib)
    then show ?thesis
      unfolding step Suc.IH by simp
  next
    case False
    then have "(t - 12) div 10 \<le> 0" by presburger
    then have "spec_demotions t (Suc a) = 0"
      unfolding spec_demotions_def by simp
    moreover have "demoteAces (Fin (of_int t)) (Suc a) = Fin (of_int t)"
      using False by (subst demoteAces.simps) (simp add: js_gt_def BLACKJACK_def)
    ultimately show ?thesis by simp
  qed
qed

text \<open>
  The closed form counts the rounds of the loop: it never exceeds the number of aces,
  it stops as soon as the total is 21 or less, and before that the total is above 21.
\<close>

lemma spec_demotions_le: "spec_demotions raw aces \<le> aces"
  unfolding spec_demotions_def by simp

lemma spec_demotions_stops:
  "raw - 10 * int (spec_demotions raw aces) \<le> 21 \<or> spec_demotions raw aces = aces"
proof (cases "aces \<le> nat ((raw - 12) div 10)")
  case True
  then show ?thesis
    unfolding spec_demotions_def by simp
next
  case False
  define q where "q = (raw - 12) div 10"
  have bound: "raw - 12 < 10 * q + 10"
    unfolding q_def by presburger
  have "spec_demotions raw aces = nat q"
    using False unfolding spec_demotions_def q_def by simp
  moreover have "raw - 10 * int (nat q) \<le> 21"
    using bound by (cases "0 \<le> q") simp_all
  ultimately show ?thesis
    by simp
qed

lemma spec_demotions_before:
  assumes "j < spec_demotions raw aces"
  shows "21 < raw - 10 * int j"
proof -
  define q where "q = (raw - 12) div 10"
  have bound: "10 * q \<le> raw - 12"
    unfolding q_def by presburger
  have "j < nat q"
    using assms unfolding spec_demotions_def q_def by simp
  then have "int j + 1 \<le> q"
    by linarith
  then show ?thesis
    using bound by linarith
qed

lemma getHandValue_ranks:
  assumes "\<forall>c \<in> set cards. is_rank (card_value c)"
  shows "getHandValue cards = Fin (of_int (spec_hand_value (map card_value cards)))"
proof -
  have "fold addCard cards (Fin (of_int 0), 0) =
      (Fin (of_int (0 + sum_list (map spec_rank_points (map card_value cards)))),
       0 + length (filter (\<lambda>v. v = ''ACE'') (map card_value cards)))"
    by (rule fold_addCard_ranks [OF assms])
  then have "fold addCard cards (Fin 0, 0) =
      (Fin (of_int (sum_list (map spec_rank_points (map card_value cards)))),
       length (filter (\<lambda>v. v = ''ACE'') (map card_value cards)))"
    by simp
  then show ?thesis
    unfolding getHandValue_def spec_hand_value_def
    by (simp add: demoteAces_int Let_def)
qed

lemma spec_hand_value_examples:
  "spec_hand_value [''ACE'', ''KING''] = 21"
  "spec_hand_value [''ACE'', ''ACE'', ''9''] = 21"
  by (simp_all add: spec_hand_value_def spec_rank_points_def spec_demotions_def)

lemma is_rank_examples: "is_rank ''ACE''" "is_rank ''KING''" "is_rank ''9''"
  by (simp_all add: is_rank_def ranks_def)

text \<open>
  C9. For every list of cards whose values are ranks of a deck, \<open>getHandValue\<close> returns
  the hand value of the specification: the sum of the ranks with KING, QUEEN and JACK
  at 10, numeral cards at face value and each ace at 11, less 10 per ace, at most once
  per ace, while the total exceeds 21. The hand ACE, KING evaluates to 21, and the hand
  ACE, ACE, 9 evaluates to 21.
\<close>

theorem getHandValue_spec:
  "((\<forall>c \<in> set cards. is_rank (card_value c)) \<longrightarrow>
      getHandValue cards = Fin (of_int (spec_hand_value (map card_value cards))))
   \<and> getHandValue [\<lparr>card_value = ''ACE'', suit = s1\<rparr>, \<lparr>card_value = ''KING'', suit = s2\<rparr>]
       = Fin 21
   \<and> getHandValue [\<lparr>card_value = ''ACE'', suit = s3\<rparr>, \<lparr>card_value = ''ACE'', suit = s4\<rparr>,
                     \<lparr>card_value = ''9'', suit = s5\<rparr>] = Fin 21"
proof (intro conjI impI)
  assume "\<forall>c \<in> set cards. is_rank (card_value c)"
  then show "getHandValue cards = Fin (of_int (spec_hand_value (map card_value cards)))"
    by (rule getHandValue_ranks)
next
  show "getHandValue [\<lparr>card_value = ''ACE'', suit = s1\<rparr>, \<lparr>card_value = ''KING'', suit = s2\<rparr>]
       = Fin 21"
    by (subst getHandValue_ranks) (simp_all add: is_rank_examples spec_hand_value_examples)
next
  show "getHandValue [\<lparr>card_value = ''ACE'', suit = s3\<rparr>, \<lparr>card_value = ''ACE'', suit = s4\<rparr>,
                     \<lparr>card_value = ''9'', suit = s5\<rparr>] = Fin 21"
    by (subst getHandValue_ranks) (simp_all add: is_rank_examples spec_hand_value_examples)
qed

theorem getHandValue_spec_witness:
  "is_rank ''ACE'' \<and> is_rank ''9''
   \<and> spec_hand_value [''ACE'', ''ACE'', ''9''] = 21
   \<and> getHandValue (map mk_card [''ACE'', ''ACE'', ''9'']) = Fin 21"
  using getHandValue_spec [where cards = "map mk_card [''ACE'', ''ACE'', ''9'']"]
  by (simp add: mk_card_def is_rank_examples spec_hand_value_examples)


section \<open>What the validation of the resolvers does ensure\<close>

text \<open>
  \<open>playCoinFlip\<close> rejects an amount that is not a number or is \<open>\<le> 0\<close>; both resolvers
  reject an amount above the balance of an existing user.
\<close>

lemma coinflip_rejects_nonpositive:
  "js_le a (Fin 0) \<Longrightarrow>
     GameService_playCoinFlip d userId guess (JNumber a) rnd = (Inl InvalidBetInput, d)"
  "\<not> is_number amount \<Longrightarrow>
     GameService_playCoinFlip d userId guess amount rnd = (Inl InvalidBetInput, d)"
  unfolding GameService_playCoinFlip_def is_number_def
  by (simp_all split: jsval.splits)

lemma resolvers_reject_insufficient_funds:
  assumes "UserModel_getById d userId = Some u" "js_gt a (balance u)"
  shows "GameService_playRoulette d userId betType a rnd = (Inl InsufficientFunds, d)"
    and "guess \<noteq> [] \<Longrightarrow> \<not> js_le a (Fin 0) \<Longrightarrow>
         GameService_playCoinFlip d userId guess (JNumber a) rnd = (Inl InsufficientFunds, d)"
  using assms unfolding GameService_playRoulette_def GameService_playCoinFlip_def
  by simp_all

text \<open>
  With finite numbers, a coin flip settlement never leaves a negative balance, and a
  roulette settlement does not when the amount is not negative.
\<close>

lemma coinflip_balance_nonneg:
  assumes "fst (GameService_playCoinFlip d userId guess (JNumber (Fin a)) rnd) = Inr r"
    and "UserModel_getById d userId = Some u" and "balance u = Fin b"
  shows "\<exists>x. cf_newBalance r = Fin x \<and> 0 \<le> x"
  using assms unfolding GameService_playCoinFlip_def
  by (auto split: if_splits simp: Let_def js_gt_def js_le_def js_sub_def)

lemma roulette_balance_nonneg:
  assumes "fst (GameService_playRoulette d userId betType (Fin a) rnd) = Inr q"
    and "UserModel_getById d userId = Some u" and "balance u = Fin b"
    and "0 \<le> a" and "0 \<le> b"
  shows "\<exists>x. rl_newBalance q = Fin x \<and> 0 \<le> x"
proof -
  have m: "matchBet betType p n = (True, x) \<Longrightarrow> 0 \<le> x" for p n x
    unfolding matchBet_def by (auto split: if_splits)
  have ab: "\<not> b < a \<Longrightarrow> 0 \<le> b - a"
    by simp
  show ?thesis
    using assms unfolding GameService_playRoulette_def
    by (auto split: if_splits option.splits prod.splits
        simp: Let_def js_gt_def js_sub_def dest!: m intro: add_nonneg_nonneg mult_nonneg_nonneg)
qed

section \<open>Routes that require a session\<close>

lemma Session_get_no_session: "Session_get no_session ''user'' = SNull"
  by (simp add: Session_get_def no_session_def)

lemma Session_get_ann_session: "Session_get ann_session ''user'' = SUser 1"
  by (simp add: Session_get_def ann_session_def Session_set_def)

text \<open>
  Without an authenticated user id in the session (\<open>null\<close>, or an id of 0), the
  handlers that test \<open>!user?.id\<close> answer 401 and leave the table as it is.
\<close>

lemma guarded_handlers_401:
  assumes "Session_get sess ''user'' = SNull \<or> Session_get sess ''user'' = SUser 0"
  shows "Controller_playCoinFlip sess guess amount d rnd = (not_logged_in, d)"
    and "Controller_playRoulette sess betType amt d rnd = (not_logged_in, d)"
    and "Controller_profile sess d = (not_logged_in, d)"
    and "Controller_setBalance sess bal d = (not_logged_in, d)"
    and "statusCode (fst (Controller_updatePassword sess cur new d)) = Unauthorized
         \<and> snd (Controller_updatePassword sess cur new d) = d"
    and "status_number (statusCode not_logged_in) = 401"
  using assms
  unfolding Controller_playCoinFlip_def Controller_playRoulette_def Controller_profile_def
    Controller_setBalance_def Controller_updatePassword_def not_logged_in_def
  by auto

text \<open>
  C4. The code breaks the claim. \<open>Controller.playBlackjack\<close> never reads the session: a
  request to \<open>POST /play/blackjack\<close> without a session is answered with status 200 and
  the payload \<open>{ win: false, payout: 0 }\<close> (the table is left as it is). So is
  \<open>POST /auth/logout\<close>, whose handler has no test of the session either.
\<close>

theorem blackjack_without_session:
  "Session_get no_session ''user'' = SNull
   \<and> (POST, ''/play/blackjack'', H_playBlackjack) \<in> set registerRoutes
   \<and> Controller_playBlackjack no_session db1 =
       (\<lparr>statusCode = OK, message = ''Blackjack result'',
         payload = Some (BlackjackPayload False (Fin 0))\<rparr>, db1)
   \<and> status_number (statusCode (fst (Controller_playBlackjack no_session db1))) = 200
   \<and> status_number (statusCode (fst (Controller_logout no_session))) = 200"
  by (simp add: Session_get_no_session registerRoutes_def Controller_playBlackjack_def
      Controller_logout_def)


section \<open>The route that sets a balance\<close>




text \<open>A request through the controller, end to end.\<close>

lemma run_controller_coinflip:
  "Controller_playCoinFlip ann_session (JString ''Heads'') (JNumber (Fin 10)) db1 0 =
     (\<lparr>statusCode = OK, message = ''Coin flip result'',
       payload = Some (CoinFlipPayload
         \<lparr>cf_outcome = ''heads'', cf_win = True, cf_payout = Fin (39 / 2),
          cf_newBalance = Fin (219 / 2)\<rparr>)\<rparr>,
      [ann\<lparr>balance := Fin (219 / 2)\<rparr>])"
proof -
  have "toLowerCase ''Heads'' = ''heads''"
    by (simp add: toLowerCase_def lower_char_def)
  then show ?thesis
    by (simp add: Controller_playCoinFlip_def Session_get_ann_session run_coinflip_heads)
qed

end
